theory Spec2Isabelle
  imports Main
begin

section \<open>JavaScript values read by the socket server contribution\<close>

text \<open>
  The functions of \<^verbatim>\<open>glsp-socket-server-contribution.ts\<close> read numbers (the port),
  strings and optional values. A \<^verbatim>\<open>number\<close> is either not-a-number or an integer:
  ports are integral, and the model is meant for integers of magnitude below \<open>2 ^ 53\<close>,
  where a JavaScript Number is exact and prints in plain decimal notation. A string is
  a list of code units; the model covers the code units below 256. An optional
  property is an \<open>option\<close>: \<open>None\<close> is \<^verbatim>\<open>undefined\<close>.
\<close>

datatype number = NaN | Num int

fun isNaN :: "number \<Rightarrow> bool" where
  "isNaN NaN = True"
| "isNaN (Num n) = False"

text \<open>Truthiness, as a condition \<^verbatim>\<open>if (x)\<close>, \<^verbatim>\<open>!x\<close> or \<^verbatim>\<open>x ? a : b\<close> reads a value:
  \<^verbatim>\<open>undefined\<close>, \<^verbatim>\<open>NaN\<close>, \<^verbatim>\<open>0\<close> and the empty string are falsy.\<close>

fun truthyNumber :: "number option \<Rightarrow> bool" where
  "truthyNumber None = False"
| "truthyNumber (Some NaN) = False"
| "truthyNumber (Some (Num n)) = (n \<noteq> 0)"

fun truthyString :: "string option \<Rightarrow> bool" where
  "truthyString None = False"
| "truthyString (Some s) = (s \<noteq> [])"

text \<open>The decimal digits of a natural number, and \<^verbatim>\<open>`${n}`\<close> for a number.\<close>

fun digitChar :: "nat \<Rightarrow> char" where
  "digitChar d = ''0123456789'' ! d"

fun decimal :: "nat \<Rightarrow> string" where
  "decimal n = (if n < 10 then [digitChar n] else decimal (n div 10) @ [digitChar (n mod 10)])"

declare decimal.simps [simp del]

fun numberToString :: "number \<Rightarrow> string" where
  "numberToString NaN = ''NaN''"
| "numberToString (Num n) = (if n < 0 then CHR ''-'' # decimal (nat (- n)) else decimal (nat n))"

text \<open>\<^verbatim>\<open>s.startsWith(p)\<close>, \<^verbatim>\<open>s.endsWith(p)\<close> and \<^verbatim>\<open>s.substring(n)\<close>.\<close>

definition startsWith :: "string \<Rightarrow> string \<Rightarrow> bool" where
  "startsWith s p = (take (length p) s = p)"

definition endsWith :: "string \<Rightarrow> string \<Rightarrow> bool" where
  "endsWith s p = (length p \<le> length s \<and> drop (length s - length p) s = p)"

definition substring :: "string \<Rightarrow> nat \<Rightarrow> string" where
  "substring s n = drop n s"

text \<open>\<^verbatim>\<open>s.replace(pat, rep)\<close> with a string pattern: the first occurrence of \<open>pat\<close> in
  \<open>s\<close> is replaced, and \<open>s\<close> is returned as it is when there is none. The
  replacement is taken as it is written; the source replaces by the empty string only.\<close>

fun replace :: "string \<Rightarrow> string \<Rightarrow> string \<Rightarrow> string" where
  "replace [] pat rep = (if pat = [] then rep else [])"
| "replace (c # cs) pat rep =
     (if startsWith (c # cs) pat then rep @ drop (length pat) (c # cs)
      else c # replace cs pat rep)"

text \<open>
  \<^verbatim>\<open>Number.parseInt(s, 10)\<close>: leading white space is skipped, one sign is read, then
  the longest run of decimal digits; with no digit the result is \<^verbatim>\<open>NaN\<close>. What follows
  the digits is ignored.
\<close>

definition isWhiteSpace :: "char \<Rightarrow> bool" where
  "isWhiteSpace c = (of_char c \<in> {9, 10, 11, 12, 13, 32, 160 :: nat})"

definition isDigit :: "char \<Rightarrow> bool" where
  "isDigit c = (48 \<le> (of_char c :: nat) \<and> (of_char c :: nat) \<le> 57)"

fun digitsValue :: "nat \<Rightarrow> string \<Rightarrow> nat" where
  "digitsValue acc [] = acc"
| "digitsValue acc (c # cs) = digitsValue (10 * acc + (of_char c - 48)) cs"

definition parseInt :: "string \<Rightarrow> number" where
  "parseInt s =
     (let t = dropWhile isWhiteSpace s;
          negative = (t \<noteq> [] \<and> hd t = CHR ''-'');
          u = (if t \<noteq> [] \<and> (hd t = CHR ''-'' \<or> hd t = CHR ''+'') then tl t else t);
          ds = takeWhile isDigit u
      in if ds = [] then NaN
         else Num (if negative then - int (digitsValue 0 ds) else int (digitsValue 0 ds)))"

section \<open>Options of the contribution\<close>

text \<open>
  \<^verbatim>\<open>net.TcpSocketConnectOpts\<close> with the two properties the contribution reads.
\<close>

record TcpSocketConnectOpts =
  port :: number
  host :: "string option"

text \<open>
  \<^verbatim>\<open>GLSPSocketServerContributionOptions\<close>. The properties inherited from
  \<^verbatim>\<open>GLSPServerContributionOptions\<close> are declared outside this file; they are carried
  as one component of a type \<open>'b\<close> that no function here reads.
\<close>

record 'b GLSPSocketServerContributionOptions =
  inherited :: 'b
  executable :: "string option"
  socketConnectionOptions :: TcpSocketConnectOpts
  additionalArgs :: "string list option"

text \<open>
  \<^verbatim>\<open>Partial<GLSPSocketServerContributionOptions>\<close>: every property may be absent
  (\<open>None\<close>). The inherited properties that are present are an update of the defaults.
  A property that is present holds a value of its type; one written with the value
  \<^verbatim>\<open>undefined\<close> is not modelled.
\<close>

record 'b PartialOptions =
  inheritedP :: "'b \<Rightarrow> 'b"
  executableP :: "string option"
  socketConnectionOptionsP :: "TcpSocketConnectOpts option"
  additionalArgsP :: "string list option"

text \<open>\<^verbatim>\<open>createDefaultOptions()\<close>; the argument is the value of
  \<^verbatim>\<open>GLSPServerContributionOptions.createDefaultOptions()\<close>.\<close>

definition createDefaultOptions :: "'b \<Rightarrow> 'b GLSPSocketServerContributionOptions" where
  "createDefaultOptions inheritedDefaults =
     \<lparr> inherited = inheritedDefaults,
       executable = None,
       socketConnectionOptions = \<lparr> port = NaN, host = None \<rparr>,
       additionalArgs = None \<rparr>"

text \<open>\<^verbatim>\<open>configure(options)\<close>: the defaults, overwritten by the properties given.\<close>

definition configure :: "'b \<Rightarrow> 'b PartialOptions option \<Rightarrow> 'b GLSPSocketServerContributionOptions" where
  "configure inheritedDefaults opts =
     (let d = createDefaultOptions inheritedDefaults in
      case opts of
        None \<Rightarrow> d
      | Some p \<Rightarrow>
          \<lparr> inherited = inheritedP p (inherited d),
            executable = (case executableP p of None \<Rightarrow> executable d | Some e \<Rightarrow> Some e),
            socketConnectionOptions =
              (case socketConnectionOptionsP p of None \<Rightarrow> socketConnectionOptions d | Some s \<Rightarrow> s),
            additionalArgs =
              (case additionalArgsP p of None \<Rightarrow> additionalArgs d | Some a \<Rightarrow> Some a) \<rparr>)"

section \<open>The contribution and its readiness future\<close>

text \<open>
  The errors: an \<^verbatim>\<open>Error\<close> with its message, as the contribution and the process
  create them, and the \<^verbatim>\<open>RangeError\<close> of the platform with its error code.
\<close>

datatype error = Error string | RangeError string

text \<open>
  \<^verbatim>\<open>Deferred<void>\<close>: a promise with its \<^verbatim>\<open>resolve\<close> and \<^verbatim>\<open>reject\<close>. A promise
  settles once; settling a settled promise does nothing.
\<close>

datatype Deferred = Unresolved | Resolved | Rejected error

fun resolve :: "Deferred \<Rightarrow> Deferred" where
  "resolve Unresolved = Resolved"
| "resolve d = d"

fun reject :: "error \<Rightarrow> Deferred \<Rightarrow> Deferred" where
  "reject e Unresolved = Rejected e"
| "reject e d = d"

text \<open>
  A client channel is a \<^verbatim>\<open>ForwardingChannel\<close> or another implementation of
  \<^verbatim>\<open>Channel\<close>; the number tells channels apart.
\<close>

datatype Channel = ForwardingChannel nat | OtherChannel nat

fun instanceofForwardingChannel :: "Channel \<Rightarrow> bool" where
  "instanceofForwardingChannel (ForwardingChannel i) = True"
| "instanceofForwardingChannel (OtherChannel i) = False"

text \<open>
  What a listener registered for a socket's \<^verbatim>\<open>'error'\<close> event does, and what the
  entries of \<^verbatim>\<open>toDispose\<close> are. Sockets are numbered in the order of their creation.
\<close>

datatype ErrorListener =
    FireOnErrorEmitter Channel
  | ForwarderListener

datatype Disposable =
    SocketConnectionForwarder Channel nat
  | SocketDestroy nat

record Socket =
  errorListeners :: "ErrorListener list"
  connectCalls :: "TcpSocketConnectOpts list"

text \<open>
  The state of a \<^verbatim>\<open>GLSPSocketServerContribution\<close>: its fields \<^verbatim>\<open>options\<close>,
  \<^verbatim>\<open>onReadyDeferred\<close> and \<^verbatim>\<open>toDispose\<close>, the calls of \<^verbatim>\<open>spawnProcessAsync\<close> made so
  far (command and arguments) and the sockets created so far.
\<close>

record 'b Contribution =
  options :: "'b GLSPSocketServerContributionOptions"
  onReadyDeferred :: Deferred
  toDispose :: "Disposable list"
  spawnCalls :: "(string \<times> string list) list"
  sockets :: "Socket list"

text \<open>The contribution after construction and \<^verbatim>\<open>initialize()\<close>.\<close>

definition initialize :: "'b \<Rightarrow> 'b PartialOptions option \<Rightarrow> 'b Contribution" where
  "initialize inheritedDefaults contributionOptions =
     \<lparr> options = configure inheritedDefaults contributionOptions,
       onReadyDeferred = Unresolved,
       toDispose = [],
       spawnCalls = [],
       sockets = [] \<rparr>"

definition START_UP_COMPLETE_MSG :: string where
  "START_UP_COMPLETE_MSG = ''[GLSP-Server]:Startup completed''"

definition processLogInfo :: "string \<Rightarrow> 'b Contribution \<Rightarrow> 'b Contribution" where
  "processLogInfo line c =
     (if startsWith line START_UP_COMPLETE_MSG
      then c\<lparr>onReadyDeferred := resolve (onReadyDeferred c)\<rparr>
      else c)"

text \<open>The output lines of the process, handed to \<^verbatim>\<open>processLogInfo\<close> one by one.\<close>

fun processLines :: "string list \<Rightarrow> 'b Contribution \<Rightarrow> 'b Contribution" where
  "processLines [] c = c"
| "processLines (l # ls) c = processLines ls (processLogInfo l c)"

text \<open>The states of the readiness future before the first line and after each line,
  and the number of places where a list of states changes.\<close>

fun readinessTrace :: "string list \<Rightarrow> 'b Contribution \<Rightarrow> Deferred list" where
  "readinessTrace [] c = [onReadyDeferred c]"
| "readinessTrace (l # ls) c = onReadyDeferred c # readinessTrace ls (processLogInfo l c)"

fun changes :: "'a list \<Rightarrow> nat" where
  "changes (x # y # zs) = (if x = y then 0 else 1) + changes (y # zs)"
| "changes zs = 0"

section \<open>Launching the server process\<close>

text \<open>The messages of the errors that \<^verbatim>\<open>launch\<close> and \<^verbatim>\<open>connectToSocketServer\<close> throw.\<close>

definition noExecutableError :: error where
  "noExecutableError =
     Error ''Could not launch GLSP server. No executable path is provided via the contribution options''"

definition invalidExecutablePathError :: "string \<Rightarrow> error" where
  "invalidExecutablePathError exe =
     Error (''Could not launch GLSP server. The given server executable path is not valid: '' @ exe)"

definition launchPortError :: "number \<Rightarrow> error" where
  "launchPortError p =
     Error (''Could not launch GLSP Server. The given server port is not a number: '' @ numberToString p)"

definition invalidExecutableError :: "string \<Rightarrow> error" where
  "invalidExecutableError exe =
     Error (''Could not launch GLSP Server. Invalid executable path '' @ exe)"

definition connectPortError :: "number \<Rightarrow> error" where
  "connectPortError p =
     Error (''Could not connect to to GLSP Server. The given server port is not a number: ''
            @ numberToString p)"

text \<open>
  \<^verbatim>\<open>spawnProcessAsync\<close> is inherited from \<^verbatim>\<open>BaseGLSPServerContribution\<close>, which is
  outside this file. Each call is recorded in \<open>spawnCalls\<close>; whether the promise it
  returns resolves (\<open>None\<close>) or rejects with an error is the parameter \<open>sp\<close>.
\<close>

type_synonym spawner = "string \<Rightarrow> string list \<Rightarrow> error option"

definition spawnProcessAsync ::
  "spawner \<Rightarrow> string \<Rightarrow> string list \<Rightarrow> 'b Contribution \<Rightarrow> error option \<times> 'b Contribution" where
  "spawnProcessAsync sp command args c =
     (sp command args, c\<lparr>spawnCalls := spawnCalls c @ [(command, args)]\<rparr>)"

text \<open>\<^verbatim>\<open>this.options.executable!\<close>: the value as it is. \<^verbatim>\<open>launch\<close> reads it only after
  it has found the executable defined; \<^verbatim>\<open>undefined\<close> is written as a template prints it.\<close>

fun nonNull :: "string option \<Rightarrow> string" where
  "nonNull (Some s) = s"
| "nonNull None = ''undefined''"

definition getJavaProcessJvmArgs :: "string list" where
  "getJavaProcessJvmArgs = [''--add-opens'', ''java.base/java.util=ALL-UNNAMED'']"

definition launchJavaProcess ::
  "spawner \<Rightarrow> 'b Contribution \<Rightarrow> error option \<times> 'b Contribution" where
  "launchJavaProcess sp c =
     (let sco = socketConnectionOptions (options c);
          args0 = getJavaProcessJvmArgs @
            [''-jar'', nonNull (executable (options c)), ''--port'', numberToString (port sco)];
          args1 = (case host sco of
                     None \<Rightarrow> args0
                   | Some h \<Rightarrow> if h \<noteq> [] then args0 @ [''--host'', h] else args0);
          args2 = (case additionalArgs (options c) of
                     None \<Rightarrow> args1
                   | Some extra \<Rightarrow> args1 @ extra)
      in spawnProcessAsync sp ''java'' args2 c)"

definition launchNodeProcess ::
  "spawner \<Rightarrow> 'b Contribution \<Rightarrow> error option \<times> 'b Contribution" where
  "launchNodeProcess sp c =
     (let sco = socketConnectionOptions (options c);
          args0 = [nonNull (executable (options c)), ''--port'', numberToString (port sco)];
          args1 = (case host sco of
                     None \<Rightarrow> args0
                   | Some h \<Rightarrow> if h \<noteq> [] then args0 @ [''--host'', h] else args0);
          args2 = (case additionalArgs (options c) of
                     None \<Rightarrow> args1
                   | Some extra \<Rightarrow> args1 @ extra)
      in spawnProcessAsync sp ''node'' args2 c)"

text \<open>
  The \<^verbatim>\<open>try\<close> block of \<^verbatim>\<open>launch\<close>: \<open>Some e\<close> is the error it throws, with the state
  reached by then. \<open>existsSync\<close> is \<^verbatim>\<open>fs.existsSync\<close>, the file system as a predicate.
\<close>

definition launchTry ::
  "(string \<Rightarrow> bool) \<Rightarrow> spawner \<Rightarrow> 'b Contribution \<Rightarrow> error option \<times> 'b Contribution" where
  "launchTry existsSync sp c =
     (let exe = nonNull (executable (options c));
          p = port (socketConnectionOptions (options c))
      in if \<not> truthyString (executable (options c)) then (Some noExecutableError, c)
         else if \<not> existsSync exe then (Some (invalidExecutablePathError exe), c)
         else if isNaN p then (Some (launchPortError p), c)
         else if endsWith exe ''.jar'' then launchJavaProcess sp c
         else if endsWith exe ''.js'' then launchNodeProcess sp c
         else (Some (invalidExecutableError exe), c))"

text \<open>
  \<^verbatim>\<open>launch()\<close>: the \<^verbatim>\<open>catch\<close> rejects the readiness future with whatever the block
  threw. The first component is the error that leaves \<^verbatim>\<open>launch\<close> itself; the promise
  that \<^verbatim>\<open>launch\<close> returns is \<open>onReadyDeferred\<close> of the state returned.
\<close>

definition launch ::
  "(string \<Rightarrow> bool) \<Rightarrow> spawner \<Rightarrow> 'b Contribution \<Rightarrow> error option \<times> 'b Contribution" where
  "launch existsSync sp c =
     (case launchTry existsSync sp c of
        (Some e, c') \<Rightarrow> (None, c'\<lparr>onReadyDeferred := reject e (onReadyDeferred c')\<rparr>)
      | (None, c') \<Rightarrow> (None, c'))"

section \<open>Connecting to the server\<close>

text \<open>A socket of the contribution is changed in place; \<^verbatim>\<open>socket.on('error', l)\<close>
  adds a listener after those registered before.\<close>

definition updateSocket :: "nat \<Rightarrow> (Socket \<Rightarrow> Socket) \<Rightarrow> 'b Contribution \<Rightarrow> 'b Contribution" where
  "updateSocket sid f c =
     (if sid < length (sockets c) then c\<lparr>sockets := (sockets c)[sid := f (sockets c ! sid)]\<rparr> else c)"

definition socketOnError :: "nat \<Rightarrow> ErrorListener \<Rightarrow> 'b Contribution \<Rightarrow> 'b Contribution" where
  "socketOnError sid l c = updateSocket sid (\<lambda>s. s\<lparr>errorListeners := errorListeners s @ [l]\<rparr>) c"

text \<open>
  Modelled from the spec: what a \<^verbatim>\<open>SocketConnectionForwarder\<close> does with a socket's
  \<^verbatim>\<open>'error'\<close> event. The class is in \<^verbatim>\<open>./socket-connection-forwarder\<close>, which is not
  among the sources. By section 4.5 of the specification a socket-level error that is
  not surfaced on the channel is logged and dropped: the forwarder, when constructed,
  listens for the event, and its listener (\<open>ForwarderListener\<close>) logs the error.
\<close>

definition newSocketConnectionForwarder :: "Channel \<Rightarrow> nat \<Rightarrow> 'b Contribution \<Rightarrow> 'b Contribution" where
  "newSocketConnectionForwarder clientChannel sid c = socketOnError sid ForwarderListener c"

text \<open>\<^verbatim>\<open>forward(clientChannel, socket)\<close>.\<close>

definition forward :: "Channel \<Rightarrow> nat \<Rightarrow> 'b Contribution \<Rightarrow> 'b Contribution" where
  "forward clientChannel sid c =
     (let c1 = newSocketConnectionForwarder clientChannel sid c
      in c1\<lparr>toDispose := toDispose c1 @ [SocketConnectionForwarder clientChannel sid]\<rparr>)"

text \<open>
  \<^verbatim>\<open>new net.Socket()\<close> and \<^verbatim>\<open>socket.connect(options)\<close>. Before it connects,
  \<^verbatim>\<open>connect\<close> checks the port: for a port that is not an integer from 0 to 65535 it
  throws a \<^verbatim>\<open>RangeError\<close> with the code \<^verbatim>\<open>ERR_SOCKET_BAD_PORT\<close>, and nothing is
  connected.
\<close>

fun validPort :: "number \<Rightarrow> bool" where
  "validPort NaN = False"
| "validPort (Num n) = (0 \<le> n \<and> n < 65536)"

definition socketBadPortError :: error where
  "socketBadPortError = RangeError ''ERR_SOCKET_BAD_PORT''"

definition newSocket :: "'b Contribution \<Rightarrow> nat \<times> 'b Contribution" where
  "newSocket c =
     (length (sockets c), c\<lparr>sockets := sockets c @ [\<lparr>errorListeners = [], connectCalls = []\<rparr>]\<rparr>)"

definition socketConnect ::
  "nat \<Rightarrow> TcpSocketConnectOpts \<Rightarrow> 'b Contribution \<Rightarrow> error option \<times> 'b Contribution" where
  "socketConnect sid opts c =
     (if validPort (port opts)
      then (None, updateSocket sid (\<lambda>s. s\<lparr>connectCalls := connectCalls s @ [opts]\<rparr>) c)
      else (Some socketBadPortError, c))"

text \<open>\<^verbatim>\<open>connectToSocketServer(clientChannel)\<close>: \<open>Some e\<close> is the error thrown.\<close>

definition connectToSocketServer ::
  "Channel \<Rightarrow> 'b Contribution \<Rightarrow> error option \<times> 'b Contribution" where
  "connectToSocketServer clientChannel c =
     (let p = port (socketConnectionOptions (options c))
      in if isNaN p then (Some (connectPortError p), c)
         else
           (let (sid, c1) = newSocket c;
                c2 = forward clientChannel sid c1;
                c3 = (if instanceofForwardingChannel clientChannel
                      then socketOnError sid (FireOnErrorEmitter clientChannel) c2
                      else c2)
            in case socketConnect sid (socketConnectionOptions (options c3)) c3 of
                 (Some e, c4) \<Rightarrow> (Some e, c4)
               | (None, c4) \<Rightarrow> (None, c4\<lparr>toDispose := toDispose c4 @ [SocketDestroy sid]\<rparr>)))"

definition connect :: "Channel \<Rightarrow> 'b Contribution \<Rightarrow> error option \<times> 'b Contribution" where
  "connect clientChannel c = connectToSocketServer clientChannel c"

text \<open>
  A socket emits \<^verbatim>\<open>'error'\<close>: its listeners run in the order of registration. An
  emitter with no listener for \<^verbatim>\<open>'error'\<close> throws the error instead (\<open>Inl\<close>). The
  listener of \<^verbatim>\<open>connectToSocketServer\<close> fires the error on the channel's
  \<^verbatim>\<open>onErrorEmitter\<close>; the forwarder's listener, modelled from the specification as
  said above, logs it.
\<close>

datatype Effect = ChannelErrorEvent Channel error | Logged error

fun runErrorListener :: "error \<Rightarrow> ErrorListener \<Rightarrow> Effect list" where
  "runErrorListener e (FireOnErrorEmitter ch) = [ChannelErrorEvent ch e]"
| "runErrorListener e ForwarderListener = [Logged e]"

definition emitError :: "Socket \<Rightarrow> error \<Rightarrow> error + Effect list" where
  "emitError s e =
     (if errorListeners s = [] then Inl e
      else Inr (concat (map (runErrorListener e) (errorListeners s))))"

section \<open>Parsing the port from the command line\<close>

text \<open>\<^verbatim>\<open>getPort(argsKey, defaultPort)\<close>; \<open>argv\<close> is \<^verbatim>\<open>process.argv\<close>.\<close>

definition normaliseKey :: "string \<Rightarrow> string" where
  "normaliseKey argsKey = ''--'' @ replace (replace argsKey ''--'' []) ''='' [] @ ''=''"

definition getPort :: "string list \<Rightarrow> string \<Rightarrow> number option \<Rightarrow> number" where
  "getPort argv argsKey defaultPort =
     (let key = normaliseKey argsKey;
          args = filter (\<lambda>a. startsWith a key) argv
      in case args of
           a # _ \<Rightarrow> parseInt (substring a (length key))
         | [] \<Rightarrow> (if truthyNumber defaultPort then
                    (case defaultPort of Some d \<Rightarrow> d | None \<Rightarrow> NaN)
                  else NaN))"

text \<open>Whether \<open>pat\<close> occurs in \<open>s\<close>.\<close>

fun occurs :: "string \<Rightarrow> string \<Rightarrow> bool" where
  "occurs pat [] = (pat = [])"
| "occurs pat (c # cs) = (startsWith (c # cs) pat \<or> occurs pat cs)"

text \<open>
  Port resolution as section 4.1 of the specification words it, for comparison: the
  first token of the form \<^verbatim>\<open>--<argsKey>=<value>\<close>, else the default if one is supplied.
\<close>

definition resolvePortSpec :: "string \<Rightarrow> string list \<Rightarrow> number option \<Rightarrow> number" where
  "resolvePortSpec argsKey args defaultPort =
     (case find (\<lambda>a. startsWith a (''--'' @ argsKey @ ''='')) args of
        Some a \<Rightarrow> parseInt (drop (length (''--'' @ argsKey @ ''='')) a)
      | None \<Rightarrow> (case defaultPort of Some d \<Rightarrow> d | None \<Rightarrow> NaN))"

section \<open>Termination of the process\<close>

text \<open>What a spawned process does next: it prints a line, or it ends (it exits or
  fails) for a reason.\<close>

datatype ProcessEvent = OutputLine string | ProcessEnded error

text \<open>
  Modelled from the spec: the handler of the end of the server process (its exit or
  its error). \<^verbatim>\<open>BaseGLSPServerContribution\<close> registers the handlers of a spawned
  process, and it is not among the sources. By section 4.3 of the specification the
  process ending before the start-up message is seen fails the readiness future, unless
  it is settled already.
\<close>

definition processEnded :: "error \<Rightarrow> 'b Contribution \<Rightarrow> 'b Contribution" where
  "processEnded reason c = c\<lparr>onReadyDeferred := reject reason (onReadyDeferred c)\<rparr>"

fun processEvent :: "ProcessEvent \<Rightarrow> 'b Contribution \<Rightarrow> 'b Contribution" where
  "processEvent (OutputLine l) c = processLogInfo l c"
| "processEvent (ProcessEnded reason) c = processEnded reason c"

fun processEvents :: "ProcessEvent list \<Rightarrow> 'b Contribution \<Rightarrow> 'b Contribution" where
  "processEvents [] c = c"
| "processEvents (ev # evs) c = processEvents evs (processEvent ev c)"

fun eventTrace :: "ProcessEvent list \<Rightarrow> 'b Contribution \<Rightarrow> Deferred list" where
  "eventTrace [] c = [onReadyDeferred c]"
| "eventTrace (ev # evs) c = onReadyDeferred c # eventTrace evs (processEvent ev c)"

text \<open>An output line that does not carry the start-up message.\<close>

fun plainOutput :: "ProcessEvent \<Rightarrow> bool" where
  "plainOutput (OutputLine l) = (\<not> startsWith l START_UP_COMPLETE_MSG)"
| "plainOutput (ProcessEnded reason) = False"

section \<open>Disposal of a session\<close>

text \<open>
  The calls that disposal makes: on the server process, on a socket, on a client
  channel and on a forwarder.
\<close>

datatype Call =
    ProcessKill
  | SocketDestroyCall nat
  | ChannelClose Channel
  | ForwarderDispose Channel nat

text \<open>
  What an entry of \<^verbatim>\<open>toDispose\<close> does when it is disposed. The entry that
  \<^verbatim>\<open>connectToSocketServer\<close> creates calls \<^verbatim>\<open>socket.destroy()\<close>. Modelled from the spec:
  the \<^verbatim>\<open>dispose\<close> of a \<^verbatim>\<open>SocketConnectionForwarder\<close>, whose class is not among the
  sources; by section 4.5 of the specification it releases the forwarder's own
  resources, which is recorded as one call.
\<close>

fun disposeEntry :: "Disposable \<Rightarrow> Call list" where
  "disposeEntry (SocketDestroy sid) = [SocketDestroyCall sid]"
| "disposeEntry (SocketConnectionForwarder clientChannel sid) = [ForwarderDispose clientChannel sid]"

text \<open>
  A session is a contribution together with the calls that its disposal has made so
  far. A contribution is bound to a session with no call made.
\<close>

record 'b Session =
  contribution :: "'b Contribution"
  calls :: "Call list"

definition bindSession :: "'b Contribution \<Rightarrow> 'b Session" where
  "bindSession c = \<lparr> contribution = c, calls = [] \<rparr>"

text \<open>
  Modelled from the spec: \<^verbatim>\<open>dispose()\<close> of the contribution, which
  \<^verbatim>\<open>BaseGLSPServerContribution\<close> defines outside the sources. By sections 3 and 5 of
  the specification, disposing the session terminates the child process if it is still
  running (one was spawned and it has not been killed) and disposes what the session
  holds, which is every entry of \<^verbatim>\<open>toDispose\<close>. The collection disposes the entry
  pushed last first and is empty afterwards, so that only the first disposal has an
  effect.
\<close>

definition dispose :: "'b Session \<Rightarrow> 'b Session" where
  "dispose s =
     (let c = contribution s;
          kill = (if spawnCalls c \<noteq> [] \<and> ProcessKill \<notin> set (calls s) then [ProcessKill] else [])
      in \<lparr> contribution = c\<lparr>toDispose := []\<rparr>,
           calls = calls s @ kill @ concat (map disposeEntry (rev (toDispose c))) \<rparr>)"

text \<open>The forwarder of \<^verbatim>\<open>toDispose\<close> that is bound to a socket, or to a channel.\<close>

fun forwarderOfSocket :: "nat \<Rightarrow> Disposable list \<Rightarrow> Channel option" where
  "forwarderOfSocket sid [] = None"
| "forwarderOfSocket sid (SocketConnectionForwarder clientChannel sid' # ds) =
     (if sid' = sid then Some clientChannel else forwarderOfSocket sid ds)"
| "forwarderOfSocket sid (SocketDestroy sid' # ds) = forwarderOfSocket sid ds"

fun forwarderOfChannel :: "Channel \<Rightarrow> Disposable list \<Rightarrow> nat option" where
  "forwarderOfChannel ch [] = None"
| "forwarderOfChannel ch (SocketConnectionForwarder clientChannel sid # ds) =
     (if clientChannel = ch then Some sid else forwarderOfChannel ch ds)"
| "forwarderOfChannel ch (SocketDestroy sid # ds) = forwarderOfChannel ch ds"

text \<open>
  Modelled from the spec: what happens to a session when \<^verbatim>\<open>dispose()\<close> is called, when
  a client channel closes and when a socket closes. By sections 3 and 4.5 of the
  specification a forwarder that is still held reacts to the closing of one of its two
  sides by disposing the other side and the session: when its socket closes, it closes
  its channel and the session is disposed; when its channel closes, the session is
  disposed, which destroys the socket. A closing that no held forwarder is bound to
  does nothing.
\<close>

datatype SessionEvent = DisposeCall | ChannelClosed Channel | SocketClosed nat

fun sessionEvent :: "SessionEvent \<Rightarrow> 'b Session \<Rightarrow> 'b Session" where
  "sessionEvent DisposeCall s = dispose s"
| "sessionEvent (ChannelClosed ch) s =
     (case forwarderOfChannel ch (toDispose (contribution s)) of
        None \<Rightarrow> s
      | Some sid \<Rightarrow> dispose s)"
| "sessionEvent (SocketClosed sid) s =
     (case forwarderOfSocket sid (toDispose (contribution s)) of
        None \<Rightarrow> s
      | Some ch \<Rightarrow> dispose (s\<lparr>calls := calls s @ [ChannelClose ch]\<rparr>))"

fun sessionEvents :: "SessionEvent list \<Rightarrow> 'b Session \<Rightarrow> 'b Session" where
  "sessionEvents [] s = s"
| "sessionEvents (ev # evs) s = sessionEvents evs (sessionEvent ev s)"

section \<open>Contributions used as examples\<close>

text \<open>A contribution whose \<^verbatim>\<open>createContributionOptions\<close> supplies every property, and
  whether the options of a contribution supply \<^verbatim>\<open>socketConnectionOptions\<close>.\<close>

definition exampleContribution ::
  "string \<Rightarrow> number \<Rightarrow> string option \<Rightarrow> string list option \<Rightarrow> unit Contribution" where
  "exampleContribution exe p h extra =
     initialize ()
       (Some \<lparr> inheritedP = (\<lambda>b. b), executableP = Some exe,
               socketConnectionOptionsP = Some \<lparr> port = p, host = h \<rparr>,
               additionalArgsP = extra \<rparr>)"

fun suppliesSocketConnectionOptions :: "'b PartialOptions option \<Rightarrow> bool" where
  "suppliesSocketConnectionOptions None = False"
| "suppliesSocketConnectionOptions (Some p) = (socketConnectionOptionsP p \<noteq> None)"

section \<open>Readiness\<close>

lemma processLines_append:
  "processLines (xs @ ys) c = processLines ys (processLines xs c)"
  by (induction xs arbitrary: c) simp_all

lemma processLines_no_sentinel:
  "\<forall>l \<in> set ls. \<not> startsWith l START_UP_COMPLETE_MSG \<Longrightarrow> processLines ls c = c"
  by (induction ls arbitrary: c) (simp_all add: processLogInfo_def)

lemma processLines_resolved:
  "onReadyDeferred c = Resolved \<Longrightarrow> processLines ls c = c"
proof (induction ls arbitrary: c)
  case Nil
  show ?case by simp
next
  case (Cons l ls)
  have "processLogInfo l c = c"
    using Cons.prems by (simp add: processLogInfo_def)
  with Cons show ?case by simp
qed

lemma readinessTrace_nonempty: "readinessTrace ls c \<noteq> []"
  by (cases ls) simp_all

lemma hd_readinessTrace: "hd (readinessTrace ls c) = onReadyDeferred c"
  by (cases ls) simp_all

lemma changes_Cons:
  "xs \<noteq> [] \<Longrightarrow> changes (x # xs) = (if x = hd xs then 0 else 1) + changes xs"
  by (cases xs) simp_all

lemma changes_trace_step:
  "changes (readinessTrace (l # ls) c) =
     (if onReadyDeferred c = onReadyDeferred (processLogInfo l c) then 0 else 1)
       + changes (readinessTrace ls (processLogInfo l c))"
  by (simp add: changes_Cons readinessTrace_nonempty hd_readinessTrace)

lemma changes_trace_resolved:
  "onReadyDeferred c = Resolved \<Longrightarrow> changes (readinessTrace ls c) = 0"
proof (induction ls arbitrary: c)
  case Nil
  show ?case by simp
next
  case (Cons l ls)
  have same: "processLogInfo l c = c"
    using Cons.prems by (simp add: processLogInfo_def)
  show ?case
    unfolding changes_trace_step same using Cons by simp
qed

lemma changes_trace_unresolved:
  "onReadyDeferred c = Unresolved \<Longrightarrow>
   changes (readinessTrace ls c) =
     (if \<exists>l \<in> set ls. startsWith l START_UP_COMPLETE_MSG then 1 else 0)"
proof (induction ls arbitrary: c)
  case Nil
  show ?case by simp
next
  case (Cons l ls)
  show ?case
  proof (cases "startsWith l START_UP_COMPLETE_MSG")
    case True
    then have r: "onReadyDeferred (processLogInfo l c) = Resolved"
      using Cons.prems by (simp add: processLogInfo_def)
    show ?thesis
      unfolding changes_trace_step using True r Cons.prems
      by (simp add: changes_trace_resolved)
  next
    case False
    then have same: "processLogInfo l c = c"
      by (simp add: processLogInfo_def)
    show ?thesis
      unfolding changes_trace_step same using False Cons by simp
  qed
qed

text \<open>
  Claim C1. Starting from an unsettled readiness future, let the output be the lines
  \<open>pre\<close>, then a line \<open>l\<close> that starts with the start-up message, then the lines
  \<open>post\<close>, where no line of \<open>pre\<close> starts with the message. The future is still
  unsettled after \<open>pre\<close>, it is resolved after \<open>l\<close>, and it is resolved after
  \<open>post\<close>, whatever \<open>post\<close> holds; over the whole output its state changes exactly
  once.
\<close>

theorem readiness_resolves_once_at_first_sentinel:
  assumes "onReadyDeferred c = Unresolved"
    and "\<forall>x \<in> set pre. \<not> startsWith x START_UP_COMPLETE_MSG"
    and "startsWith l START_UP_COMPLETE_MSG"
  shows "onReadyDeferred (processLines pre c) = Unresolved
       \<and> onReadyDeferred (processLines (pre @ [l]) c) = Resolved
       \<and> onReadyDeferred (processLines (pre @ l # post) c) = Resolved
       \<and> changes (readinessTrace (pre @ l # post) c) = 1"
proof -
  have a: "processLines pre c = c"
    using assms(2) by (rule processLines_no_sentinel)
  have b: "onReadyDeferred (processLogInfo l c) = Resolved"
    using assms(1,3) by (simp add: processLogInfo_def)
  have c1: "onReadyDeferred (processLines (pre @ [l]) c) = Resolved"
    using a b by (simp add: processLines_append)
  have d: "processLines (pre @ l # post) c = processLines post (processLogInfo l c)"
    using a by (simp add: processLines_append)
  have e: "onReadyDeferred (processLines (pre @ l # post) c) = Resolved"
    using b by (simp add: d processLines_resolved)
  have f: "changes (readinessTrace (pre @ l # post) c) = 1"
    using assms(1,3) by (simp add: changes_trace_unresolved)
  show ?thesis
    using a assms(1) c1 e f by simp
qed

theorem readiness_resolves_once_at_first_sentinel_witness:
  "onReadyDeferred (initialize () None) = Unresolved
   \<and> \<not> startsWith ''Starting server'' START_UP_COMPLETE_MSG
   \<and> startsWith ''[GLSP-Server]:Startup completed on port 5007'' START_UP_COMPLETE_MSG
   \<and> onReadyDeferred (processLines [''Starting server''] (initialize () None)) = Unresolved
   \<and> onReadyDeferred (processLines ([''Starting server''] @
        [''[GLSP-Server]:Startup completed on port 5007'']) (initialize () None)) = Resolved
   \<and> onReadyDeferred (processLines ([''Starting server''] @
        ''[GLSP-Server]:Startup completed on port 5007'' #
        [''[GLSP-Server]:Startup completed'', ''bye'']) (initialize () None)) = Resolved
   \<and> changes (readinessTrace ([''Starting server''] @
        ''[GLSP-Server]:Startup completed on port 5007'' #
        [''[GLSP-Server]:Startup completed'', ''bye'']) (initialize () None)) = 1"
proof -
  have h1: "onReadyDeferred (initialize () None) = Unresolved"
    by (simp add: initialize_def)
  have h2: "\<forall>x \<in> set [''Starting server'']. \<not> startsWith x START_UP_COMPLETE_MSG"
    by (simp add: startsWith_def START_UP_COMPLETE_MSG_def)
  have h3: "startsWith ''[GLSP-Server]:Startup completed on port 5007'' START_UP_COMPLETE_MSG"
    by (simp add: startsWith_def START_UP_COMPLETE_MSG_def)
  have h2': "\<not> startsWith ''Starting server'' START_UP_COMPLETE_MSG"
    using h2 by simp
  show ?thesis
    using readiness_resolves_once_at_first_sentinel [OF h1 h2 h3,
        of "[''[GLSP-Server]:Startup completed'', ''bye'']"] h1 h2' h3
    by blast
qed

section \<open>Launching and connecting\<close>

lemma decimal_small: "n < 10 \<Longrightarrow> decimal n = [digitChar n]"
  by (simp add: decimal.simps)

lemma decimal_large:
  "\<not> n < 10 \<Longrightarrow> decimal n = decimal (n div 10) @ [digitChar (n mod 10)]"
  by (subst decimal.simps) simp

lemma example_options:
  "options (exampleContribution exe p h extra) =
     \<lparr> inherited = (), executable = Some exe,
       socketConnectionOptions = \<lparr> port = p, host = h \<rparr>, additionalArgs = extra \<rparr>"
  by (simp add: exampleContribution_def initialize_def configure_def createDefaultOptions_def
      split: option.split)

lemma launchJavaProcess_state:
  "snd (launchJavaProcess sp c) =
     c\<lparr>spawnCalls := spawnCalls c @
        [(''java'', getJavaProcessJvmArgs @
            [''-jar'', nonNull (executable (options c)), ''--port'',
             numberToString (port (socketConnectionOptions (options c)))] @
            (case host (socketConnectionOptions (options c)) of
               None \<Rightarrow> [] | Some h \<Rightarrow> if h = [] then [] else [''--host'', h]) @
            (case additionalArgs (options c) of None \<Rightarrow> [] | Some extra \<Rightarrow> extra))]\<rparr>"
  by (simp add: launchJavaProcess_def spawnProcessAsync_def Let_def
      split: option.split)

lemma launchNodeProcess_state:
  "snd (launchNodeProcess sp c) =
     c\<lparr>spawnCalls := spawnCalls c @
        [(''node'',
            [nonNull (executable (options c)), ''--port'',
             numberToString (port (socketConnectionOptions (options c)))] @
            (case host (socketConnectionOptions (options c)) of
               None \<Rightarrow> [] | Some h \<Rightarrow> if h = [] then [] else [''--host'', h]) @
            (case additionalArgs (options c) of None \<Rightarrow> [] | Some extra \<Rightarrow> extra))]\<rparr>"
  by (simp add: launchNodeProcess_def spawnProcessAsync_def Let_def
      split: option.split)

lemma launch_state:
  "snd (launch existsSync sp c) =
     (case fst (launchTry existsSync sp c) of
        None \<Rightarrow> snd (launchTry existsSync sp c)
      | Some e \<Rightarrow> (snd (launchTry existsSync sp c))
          \<lparr>onReadyDeferred := reject e (onReadyDeferred (snd (launchTry existsSync sp c)))\<rparr>)"
  by (cases "launchTry existsSync sp c") (simp add: launch_def split: option.split)

lemma endsWith_last:
  "endsWith s p \<Longrightarrow> p \<noteq> [] \<Longrightarrow> last s = last p"
  unfolding endsWith_def
  by (metis last_drop length_drop diff_diff_cancel length_greater_0_conv  drop_eq_Nil2 not_le)

lemma js_is_not_jar: "endsWith exe ''.js'' \<Longrightarrow> \<not> endsWith exe ''.jar''"
proof
  assume a: "endsWith exe ''.js''" and b: "endsWith exe ''.jar''"
  have "last exe = CHR ''s''" using endsWith_last [OF a] by simp
  moreover have "last exe = CHR ''r''" using endsWith_last [OF b] by simp
  ultimately show False by simp
qed


text \<open>
  Claim C2. When the options have no executable, or the executable does not exist on
  disk, or the port is not a number, or the executable ends neither with \<^verbatim>\<open>.jar\<close> nor
  with \<^verbatim>\<open>.js\<close>, \<^verbatim>\<open>launch\<close> throws nothing itself and rejects the readiness future
  with one of its four configuration errors (the future keeps its state when it was
  settled before); \<^verbatim>\<open>spawnProcessAsync\<close> is not called and no socket is created.
\<close>

theorem launch_rejects_invalid_configuration:
  assumes "executable (options c) = None
         \<or> (\<exists>exe. executable (options c) = Some exe
              \<and> (\<not> existsSync exe
                 \<or> isNaN (port (socketConnectionOptions (options c)))
                 \<or> (\<not> endsWith exe ''.jar'' \<and> \<not> endsWith exe ''.js'')))"
  shows "\<exists>e. (e = noExecutableError
             \<or> e = invalidExecutablePathError (nonNull (executable (options c)))
             \<or> e = launchPortError NaN
             \<or> e = invalidExecutableError (nonNull (executable (options c))))
           \<and> launch existsSync sp c = (None, c\<lparr>onReadyDeferred := reject e (onReadyDeferred c)\<rparr>)
           \<and> spawnCalls (snd (launch existsSync sp c)) = spawnCalls c
           \<and> sockets (snd (launch existsSync sp c)) = sockets c
           \<and> (if onReadyDeferred c = Unresolved
               then onReadyDeferred (snd (launch existsSync sp c)) = Rejected e
               else onReadyDeferred (snd (launch existsSync sp c)) = onReadyDeferred c)"
proof -
  have "\<exists>e. (e = noExecutableError
             \<or> e = invalidExecutablePathError (nonNull (executable (options c)))
             \<or> e = launchPortError NaN
             \<or> e = invalidExecutableError (nonNull (executable (options c))))
           \<and> launchTry existsSync sp c = (Some e, c)"
  proof (cases "executable (options c)")
    case None
    then show ?thesis by (simp add: launchTry_def)
  next
    case (Some exe)
    with assms have bad: "\<not> existsSync exe
        \<or> isNaN (port (socketConnectionOptions (options c)))
        \<or> (\<not> endsWith exe ''.jar'' \<and> \<not> endsWith exe ''.js'')"
      by simp
    show ?thesis
    proof (cases "port (socketConnectionOptions (options c))")
      case NaN
      with Some show ?thesis by (simp add: launchTry_def Let_def)
    next
      case (Num n)
      with Some bad show ?thesis by (auto simp add: launchTry_def Let_def)
    qed
  qed
  then obtain e where e: "e = noExecutableError
             \<or> e = invalidExecutablePathError (nonNull (executable (options c)))
             \<or> e = launchPortError NaN
             \<or> e = invalidExecutableError (nonNull (executable (options c)))"
    and t: "launchTry existsSync sp c = (Some e, c)"
    by blast
  have l: "launch existsSync sp c = (None, c\<lparr>onReadyDeferred := reject e (onReadyDeferred c)\<rparr>)"
    using t by (simp add: launch_def)
  have r: "onReadyDeferred c = Unresolved \<Longrightarrow> reject e (onReadyDeferred c) = Rejected e"
    by simp
  have k: "onReadyDeferred c \<noteq> Unresolved \<Longrightarrow> reject e (onReadyDeferred c) = onReadyDeferred c"
    by (cases "onReadyDeferred c") simp_all
  show ?thesis
    using e l r k by (intro exI [of _ e]) simp
qed

theorem launch_rejects_invalid_configuration_witness:
  "executable (options (exampleContribution ''server.exe'' (Num 5007) None None)) = Some ''server.exe''
   \<and> \<not> endsWith ''server.exe'' ''.jar'' \<and> \<not> endsWith ''server.exe'' ''.js''
   \<and> launch (\<lambda>f. True) (\<lambda>cmd args. None) (exampleContribution ''server.exe'' (Num 5007) None None)
       = (None, (exampleContribution ''server.exe'' (Num 5007) None None)
                  \<lparr>onReadyDeferred := Rejected (invalidExecutableError ''server.exe'')\<rparr>)
   \<and> spawnCalls (snd (launch (\<lambda>f. True) (\<lambda>cmd args. None)
         (exampleContribution ''server.exe'' (Num 5007) None None))) = []"
proof -
  let ?c = "exampleContribution ''server.exe'' (Num 5007) None None"
  have exe: "executable (options ?c) = Some ''server.exe''"
    by (simp add: example_options)
  have ext: "\<not> endsWith ''server.exe'' ''.jar'' \<and> \<not> endsWith ''server.exe'' ''.js''"
    by (simp add: endsWith_def)
  have hyp: "executable (options ?c) = None
         \<or> (\<exists>exe. executable (options ?c) = Some exe
              \<and> (\<not> (\<lambda>f. True) exe
                 \<or> isNaN (port (socketConnectionOptions (options ?c)))
                 \<or> (\<not> endsWith exe ''.jar'' \<and> \<not> endsWith exe ''.js'')))"
    using exe ext by simp
  have fresh: "onReadyDeferred ?c = Unresolved" and none: "spawnCalls ?c = []"
    by (simp_all add: exampleContribution_def initialize_def)
  have distinct: "noExecutableError \<noteq> invalidExecutableError ''server.exe''"
    "invalidExecutablePathError ''server.exe'' \<noteq> invalidExecutableError ''server.exe''"
    "launchPortError NaN \<noteq> invalidExecutableError ''server.exe''"
    by (simp_all add: noExecutableError_def invalidExecutableError_def
        invalidExecutablePathError_def launchPortError_def)
  have direct: "onReadyDeferred (snd (launch (\<lambda>f. True) (\<lambda>cmd args. None) ?c))
      = Rejected (invalidExecutableError ''server.exe'')"
    using exe ext by (simp add: launch_def launchTry_def example_options Let_def fresh)
  from launch_rejects_invalid_configuration [OF hyp, of "\<lambda>cmd args. None"]
  obtain e where l: "launch (\<lambda>f. True) (\<lambda>cmd args. None) ?c
        = (None, ?c\<lparr>onReadyDeferred := reject e (onReadyDeferred ?c)\<rparr>)"
    and s: "spawnCalls (snd (launch (\<lambda>f. True) (\<lambda>cmd args. None) ?c)) = spawnCalls ?c"
    by blast
  have "reject e (onReadyDeferred ?c) = Rejected (invalidExecutableError ''server.exe'')"
    using l direct by simp
  with l s none exe ext show ?thesis by simp
qed

lemma launchTry_cases:
  "(\<exists>e. launchTry existsSync sp c = (Some e, c))
   \<or> (\<exists>cmd args. launchTry existsSync sp c =
         (sp cmd args, c\<lparr>spawnCalls := spawnCalls c @ [(cmd, args)]\<rparr>))"
  by (auto simp add: launchTry_def launchJavaProcess_def launchNodeProcess_def
      spawnProcessAsync_def Let_def)

text \<open>
  Claim C4. For options with an existing executable and a port that is a number: when
  the executable ends with \<^verbatim>\<open>.jar\<close>, \<^verbatim>\<open>launch\<close> spawns \<^verbatim>\<open>java\<close> with the JVM
  flags, \<^verbatim>\<open>-jar\<close>, the executable, \<^verbatim>\<open>--port\<close> and the port, then \<^verbatim>\<open>--host\<close> and the
  host exactly when a host is configured (a non-empty string), then the additional
  arguments in their order; when it ends with \<^verbatim>\<open>.js\<close>, it spawns \<^verbatim>\<open>node\<close> with
  the same vector without the JVM flags and \<^verbatim>\<open>-jar\<close>.
\<close>

theorem launch_builds_argument_vector:
  assumes "executable (options c) = Some exe"
    and "existsSync exe"
    and "port (socketConnectionOptions (options c)) = Num n"
  shows "(endsWith exe ''.jar'' \<longrightarrow>
            spawnCalls (snd (launch existsSync sp c)) = spawnCalls c @
              [(''java'', getJavaProcessJvmArgs @
                 [''-jar'', exe, ''--port'', numberToString (Num n)] @
                 (case host (socketConnectionOptions (options c)) of
                    None \<Rightarrow> [] | Some h \<Rightarrow> if h = [] then [] else [''--host'', h]) @
                 (case additionalArgs (options c) of None \<Rightarrow> [] | Some extra \<Rightarrow> extra))])
       \<and> (endsWith exe ''.js'' \<longrightarrow>
            spawnCalls (snd (launch existsSync sp c)) = spawnCalls c @
              [(''node'',
                 [exe, ''--port'', numberToString (Num n)] @
                 (case host (socketConnectionOptions (options c)) of
                    None \<Rightarrow> [] | Some h \<Rightarrow> if h = [] then [] else [''--host'', h]) @
                 (case additionalArgs (options c) of None \<Rightarrow> [] | Some extra \<Rightarrow> extra))])"
proof (intro conjI impI)
  assume jar: "endsWith exe ''.jar''"
  then have ne: "exe \<noteq> []" by (auto simp add: endsWith_def)
  have t: "launchTry existsSync sp c = launchJavaProcess sp c"
    using assms jar ne by (simp add: launchTry_def Let_def)
  have "spawnCalls (snd (launch existsSync sp c)) = spawnCalls (snd (launchJavaProcess sp c))"
    unfolding launch_state t by (simp split: option.split)
  then show "spawnCalls (snd (launch existsSync sp c)) = spawnCalls c @
              [(''java'', getJavaProcessJvmArgs @
                 [''-jar'', exe, ''--port'', numberToString (Num n)] @
                 (case host (socketConnectionOptions (options c)) of
                    None \<Rightarrow> [] | Some h \<Rightarrow> if h = [] then [] else [''--host'', h]) @
                 (case additionalArgs (options c) of None \<Rightarrow> [] | Some extra \<Rightarrow> extra))]"
    using assms by (simp add: launchJavaProcess_state)
next
  assume js: "endsWith exe ''.js''"
  then have ne: "exe \<noteq> []" by (auto simp add: endsWith_def)
  have nj: "\<not> endsWith exe ''.jar''" using js by (rule js_is_not_jar)
  have t: "launchTry existsSync sp c = launchNodeProcess sp c"
    using assms js nj ne by (simp add: launchTry_def Let_def)
  have "spawnCalls (snd (launch existsSync sp c)) = spawnCalls (snd (launchNodeProcess sp c))"
    unfolding launch_state t by (simp split: option.split)
  then show "spawnCalls (snd (launch existsSync sp c)) = spawnCalls c @
              [(''node'',
                 [exe, ''--port'', numberToString (Num n)] @
                 (case host (socketConnectionOptions (options c)) of
                    None \<Rightarrow> [] | Some h \<Rightarrow> if h = [] then [] else [''--host'', h]) @
                 (case additionalArgs (options c) of None \<Rightarrow> [] | Some extra \<Rightarrow> extra))]"
    using assms by (simp add: launchNodeProcess_state)
qed

theorem launch_builds_argument_vector_witness:
  "executable (options (exampleContribution ''/opt/glsp/server.jar'' (Num 5007)
       (Some ''localhost'') (Some [''--verbose'']))) = Some ''/opt/glsp/server.jar''
   \<and> endsWith ''/opt/glsp/server.jar'' ''.jar''
   \<and> spawnCalls (snd (launch (\<lambda>f. True) (\<lambda>cmd args. None)
         (exampleContribution ''/opt/glsp/server.jar'' (Num 5007)
            (Some ''localhost'') (Some [''--verbose''])))) =
       [(''java'', [''--add-opens'', ''java.base/java.util=ALL-UNNAMED'', ''-jar'',
           ''/opt/glsp/server.jar'', ''--port'', ''5007'', ''--host'', ''localhost'',
           ''--verbose''])]
   \<and> executable (options (exampleContribution ''server.js'' (Num 8081) None None))
       = Some ''server.js''
   \<and> endsWith ''server.js'' ''.js''
   \<and> spawnCalls (snd (launch (\<lambda>f. True) (\<lambda>cmd args. None)
         (exampleContribution ''server.js'' (Num 8081) None None))) =
       [(''node'', [''server.js'', ''--port'', ''8081''])]"
proof -
  let ?j = "exampleContribution ''/opt/glsp/server.jar'' (Num 5007)
       (Some ''localhost'') (Some [''--verbose''])"
  let ?n = "exampleContribution ''server.js'' (Num 8081) None None"
  have j1: "executable (options ?j) = Some ''/opt/glsp/server.jar''"
    and j3: "port (socketConnectionOptions (options ?j)) = Num 5007"
    and n1: "executable (options ?n) = Some ''server.js''"
    and n3: "port (socketConnectionOptions (options ?n)) = Num 8081"
    by (simp_all add: example_options)
  have ex: "(\<lambda>f. True) ''/opt/glsp/server.jar''" "(\<lambda>f. True) ''server.js''"
    by simp_all
  have jar: "endsWith ''/opt/glsp/server.jar'' ''.jar''" and js: "endsWith ''server.js'' ''.js''"
    by (simp_all add: endsWith_def)
  have d1: "decimal 5007 = ''5007''" and d2: "decimal 8081 = ''8081''"
    by (simp_all add: decimal_small decimal_large)
  have e: "spawnCalls ?j = []" "spawnCalls ?n = []"
    by (simp_all add: exampleContribution_def initialize_def)
  show ?thesis
    using launch_builds_argument_vector [OF j1 ex(1) j3, of "\<lambda>cmd args. None"]
      launch_builds_argument_vector [OF n1 ex(2) n3, of "\<lambda>cmd args. None"]
      j1 n1 jar js
    by (simp add: example_options getJavaProcessJvmArgs_def d1 d2 e)
qed

text \<open>
  Claim C5. For all options, \<^verbatim>\<open>launch\<close> throws nothing to its caller. Every error
  of its body, a configuration error or the error of the spawned process, is passed to
  \<^verbatim>\<open>reject\<close> of the readiness future, whose promise is what \<^verbatim>\<open>launch\<close> returns.
  \<^verbatim>\<open>spawnProcessAsync\<close> is called at most once, and an error of that one call is the
  error passed on: nothing is tried again.
\<close>

theorem launch_funnels_errors_into_readiness:
  "fst (launch existsSync sp c) = None
   \<and> (\<forall>e. fst (launchTry existsSync sp c) = Some e \<longrightarrow>
          onReadyDeferred (snd (launch existsSync sp c)) = reject e (onReadyDeferred c))
   \<and> (fst (launchTry existsSync sp c) = None \<longrightarrow>
          onReadyDeferred (snd (launch existsSync sp c)) = onReadyDeferred c)
   \<and> (spawnCalls (snd (launch existsSync sp c)) = spawnCalls c
      \<or> (\<exists>cmd args. spawnCalls (snd (launch existsSync sp c)) = spawnCalls c @ [(cmd, args)]
            \<and> fst (launchTry existsSync sp c) = sp cmd args))"
proof -
  consider (config) e where "launchTry existsSync sp c = (Some e, c)"
    | (spawn) cmd args where "launchTry existsSync sp c =
         (sp cmd args, c\<lparr>spawnCalls := spawnCalls c @ [(cmd, args)]\<rparr>)"
    using launchTry_cases [of existsSync sp c] by blast
  then show ?thesis
  proof cases
    case config
    then show ?thesis by (simp add: launch_def)
  next
    case spawn
    then show ?thesis by (cases "sp cmd args") (auto simp add: launch_def)
  qed
qed

theorem launch_funnels_errors_into_readiness_witness:
  "fst (launchTry (\<lambda>f. True) (\<lambda>cmd args. Some (Error ''spawn java ENOENT''))
         (exampleContribution ''server.jar'' (Num 5007) None None))
     = Some (Error ''spawn java ENOENT'')
   \<and> fst (launch (\<lambda>f. True) (\<lambda>cmd args. Some (Error ''spawn java ENOENT''))
         (exampleContribution ''server.jar'' (Num 5007) None None)) = None
   \<and> onReadyDeferred (snd (launch (\<lambda>f. True) (\<lambda>cmd args. Some (Error ''spawn java ENOENT''))
         (exampleContribution ''server.jar'' (Num 5007) None None)))
     = Rejected (Error ''spawn java ENOENT'')"
proof -
  let ?c = "exampleContribution ''server.jar'' (Num 5007) None None"
  let ?sp = "\<lambda>cmd args. Some (Error ''spawn java ENOENT'') :: error option"
  have jar: "endsWith ''server.jar'' ''.jar''"
    by (simp add: endsWith_def)
  have t: "fst (launchTry (\<lambda>f. True) ?sp ?c) = Some (Error ''spawn java ENOENT'')"
    using jar
    by (simp add: launchTry_def launchJavaProcess_def spawnProcessAsync_def
        example_options Let_def)
  have fresh: "onReadyDeferred ?c = Unresolved"
    by (simp add: exampleContribution_def initialize_def)
  show ?thesis
    using launch_funnels_errors_into_readiness [of "\<lambda>f. True" ?sp ?c] t fresh
    by simp
qed

text \<open>
  Claim C8. When the port of the options is not a number, \<^verbatim>\<open>connect\<close> throws the
  port error and leaves the contribution as it was: no socket is created, nothing is
  connected and nothing is added to \<^verbatim>\<open>toDispose\<close>. The check reads the options only,
  whether or not \<^verbatim>\<open>launch\<close> has run.
\<close>

theorem connect_rejects_nan_port:
  assumes "isNaN (port (socketConnectionOptions (options c)))"
  shows "connectToSocketServer ch c = (Some (connectPortError NaN), c)
       \<and> connect ch c = (Some (connectPortError NaN), c)
       \<and> sockets (snd (connect ch c)) = sockets c
       \<and> toDispose (snd (connect ch c)) = toDispose c"
proof -
  have "port (socketConnectionOptions (options c)) = NaN"
    using assms by (cases "port (socketConnectionOptions (options c))") simp_all
  then show ?thesis
    by (simp add: connect_def connectToSocketServer_def)
qed

theorem connect_rejects_nan_port_witness:
  "isNaN (port (socketConnectionOptions (options (initialize () None))))
   \<and> connect (ForwardingChannel 0) (initialize () None)
       = (Some (connectPortError NaN), initialize () None)
   \<and> sockets (snd (connect (ForwardingChannel 0) (initialize () None))) = []"
proof -
  have h: "isNaN (port (socketConnectionOptions (options (initialize () None))))"
    by (simp add: initialize_def configure_def createDefaultOptions_def)
  have s: "sockets (initialize () None) = []"
    by (simp add: initialize_def)
  show ?thesis
    using connect_rejects_nan_port [OF h, of "ForwardingChannel 0"] h s by simp
qed

section \<open>Port resolution\<close>

lemma replace_absent: "\<not> occurs pat s \<Longrightarrow> replace s pat rep = s"
  by (induction s) auto

lemma normaliseKey_plain:
  "\<not> occurs ''--'' argsKey \<Longrightarrow> \<not> occurs ''='' argsKey \<Longrightarrow>
   normaliseKey argsKey = ''--'' @ argsKey @ ''=''"
  by (simp add: normaliseKey_def replace_absent)

lemma filter_find:
  "(case filter P xs of [] \<Rightarrow> a | x # ys \<Rightarrow> f x) = (case find P xs of None \<Rightarrow> a | Some x \<Rightarrow> f x)"
  by (induction xs) simp_all

lemma truthy_default:
  "d \<noteq> Some (Num 0) \<Longrightarrow>
   (if truthyNumber d then (case d of Some x \<Rightarrow> x | None \<Rightarrow> NaN) else NaN)
     = (case d of Some x \<Rightarrow> x | None \<Rightarrow> NaN)"
proof (cases d)
  case None
  then show ?thesis by simp
next
  case (Some x)
  assume "d \<noteq> Some (Num 0)"
  with Some show ?thesis by (cases x) simp_all
qed

text \<open>
  Claim C3, amended. The key is normalised first: its first \<^verbatim>\<open>--\<close> and then its first
  \<^verbatim>\<open>=\<close> are removed, and \<^verbatim>\<open>--\<close> and \<^verbatim>\<open>=\<close> are put around the rest. For every key,
  every argument list and every default port other than \<^verbatim>\<open>0\<close>, \<^verbatim>\<open>getPort\<close> returns
  \<^verbatim>\<open>parseInt\<close> of what follows the normalised key in the first argument that starts
  with it, and the default port (not-a-number when there is none) when no argument
  does. For a key in which neither \<^verbatim>\<open>--\<close> nor \<^verbatim>\<open>=\<close> occurs that is port resolution as
  the specification words it.
\<close>

theorem getPort_first_match_or_default:
  assumes "defaultPort \<noteq> Some (Num 0)"
  shows "getPort argv argsKey defaultPort =
           (case find (\<lambda>a. startsWith a (normaliseKey argsKey)) argv of
              Some a \<Rightarrow> parseInt (drop (length (normaliseKey argsKey)) a)
            | None \<Rightarrow> (case defaultPort of Some d \<Rightarrow> d | None \<Rightarrow> NaN))
       \<and> (\<not> occurs ''--'' argsKey \<and> \<not> occurs ''='' argsKey \<longrightarrow>
            normaliseKey argsKey = ''--'' @ argsKey @ ''=''
            \<and> getPort argv argsKey defaultPort = resolvePortSpec argsKey argv defaultPort)"
proof -
  have a: "getPort argv argsKey defaultPort =
           (case find (\<lambda>a. startsWith a (normaliseKey argsKey)) argv of
              Some a \<Rightarrow> parseInt (drop (length (normaliseKey argsKey)) a)
            | None \<Rightarrow> (case defaultPort of Some d \<Rightarrow> d | None \<Rightarrow> NaN))"
    unfolding getPort_def Let_def filter_find substring_def truthy_default [OF assms]
    by (rule refl)
  have b: "getPort argv argsKey defaultPort = resolvePortSpec argsKey argv defaultPort"
    if "normaliseKey argsKey = ''--'' @ argsKey @ ''=''"
    unfolding a resolvePortSpec_def that ..
  show ?thesis
    using a b normaliseKey_plain by blast
qed

theorem getPort_first_match_or_default_witness:
  "(None :: number option) \<noteq> Some (Num 0) \<and> Some (Num 5007) \<noteq> Some (Num 0)
   \<and> getPort [''--foo=1'', ''--port=8081''] ''port'' None = Num 8081
   \<and> getPort [] ''port'' (Some (Num 5007)) = Num 5007
   \<and> getPort [] ''port'' None = NaN"
proof -
  have h1: "(None :: number option) \<noteq> Some (Num 0)" and h2: "Some (Num 5007) \<noteq> Some (Num 0)"
    by simp_all
  have k: "normaliseKey ''port'' = ''--port=''"
    by (simp add: normaliseKey_def startsWith_def)
  have p: "parseInt ''8081'' = Num 8081"
    by (simp add: parseInt_def isWhiteSpace_def isDigit_def)
  show ?thesis
    using getPort_first_match_or_default [OF h1, of "[''--foo=1'', ''--port=8081'']" "''port''"]
      getPort_first_match_or_default [OF h2, of "[]" "''port''"]
      getPort_first_match_or_default [OF h1, of "[]" "''port''"]
    by (simp add: k p startsWith_def)
qed

theorem getPort_differs_from_spec_counterexample:
  "getPort [''--port=8081''] ''--port'' None = Num 8081
   \<and> resolvePortSpec ''--port'' [''--port=8081''] None = NaN
   \<and> getPort [] ''port'' (Some (Num 0)) = NaN
   \<and> resolvePortSpec ''port'' [] (Some (Num 0)) = Num 0"
  by (simp add: getPort_def resolvePortSpec_def normaliseKey_def startsWith_def substring_def
      parseInt_def isWhiteSpace_def isDigit_def)

section \<open>Default options and the end of the process\<close>

lemma default_port:
  "\<not> suppliesSocketConnectionOptions opts \<Longrightarrow>
   port (socketConnectionOptions (options (initialize d opts))) = NaN"
  by (cases opts)
    (simp_all add: initialize_def configure_def createDefaultOptions_def Let_def)

lemma initialize_fresh:
  "onReadyDeferred (initialize d opts) = Unresolved"
  "spawnCalls (initialize d opts) = []"
  "sockets (initialize d opts) = []"
  by (simp_all add: initialize_def)

text \<open>
  Claim C10, amended. For a contribution whose options do not supply
  \<^verbatim>\<open>socketConnectionOptions\<close> the port is not-a-number. \<^verbatim>\<open>launch\<close> then always
  rejects its readiness future and spawns nothing: with the no-executable error when
  no executable is configured, with the invalid-path error when the executable does not
  exist, and with the port error when the executable exists. \<^verbatim>\<open>connect\<close> always throws
  its port error.
\<close>

theorem default_port_makes_launch_and_connect_fail:
  assumes "\<not> suppliesSocketConnectionOptions opts"
  shows "port (socketConnectionOptions (options (initialize d opts))) = NaN
       \<and> fst (launch existsSync sp (initialize d opts)) = None
       \<and> onReadyDeferred (snd (launch existsSync sp (initialize d opts))) =
           Rejected (case executable (options (initialize d opts)) of
                       None \<Rightarrow> noExecutableError
                     | Some exe \<Rightarrow>
                         if exe = [] then noExecutableError
                         else if \<not> existsSync exe then invalidExecutablePathError exe
                         else launchPortError NaN)
       \<and> spawnCalls (snd (launch existsSync sp (initialize d opts))) = []
       \<and> connect ch (initialize d opts) = (Some (connectPortError NaN), initialize d opts)"
proof -
  let ?c = "initialize d opts"
  have p: "port (socketConnectionOptions (options ?c)) = NaN"
    using assms by (rule default_port)
  have t: "launchTry existsSync sp ?c =
      (Some (case executable (options ?c) of
               None \<Rightarrow> noExecutableError
             | Some exe \<Rightarrow>
                 if exe = [] then noExecutableError
                 else if \<not> existsSync exe then invalidExecutablePathError exe
                 else launchPortError NaN), ?c)"
    by (cases "executable (options ?c)") (simp_all add: launchTry_def Let_def p)
  have l: "launch existsSync sp ?c =
      (None, ?c\<lparr>onReadyDeferred := Rejected (case executable (options ?c) of
               None \<Rightarrow> noExecutableError
             | Some exe \<Rightarrow>
                 if exe = [] then noExecutableError
                 else if \<not> existsSync exe then invalidExecutablePathError exe
                 else launchPortError NaN)\<rparr>)"
    unfolding launch_def t by (simp add: initialize_fresh)
  have k: "connect ch ?c = (Some (connectPortError NaN), ?c)"
    by (simp add: connect_def connectToSocketServer_def p)
  show ?thesis
    using p k unfolding l by (simp add: initialize_fresh)
qed

theorem default_port_makes_launch_and_connect_fail_witness:
  "\<not> suppliesSocketConnectionOptions
        (Some \<lparr> inheritedP = (\<lambda>b::unit. b), executableP = Some ''server.jar'',
                socketConnectionOptionsP = None, additionalArgsP = None \<rparr>)
   \<and> onReadyDeferred (snd (launch (\<lambda>f. True) (\<lambda>cmd args. None)
        (initialize ()
          (Some \<lparr> inheritedP = (\<lambda>b::unit. b), executableP = Some ''server.jar'',
                  socketConnectionOptionsP = None, additionalArgsP = None \<rparr>))))
       = Rejected (launchPortError NaN)
   \<and> fst (connect (OtherChannel 0)
        (initialize ()
          (Some \<lparr> inheritedP = (\<lambda>b::unit. b), executableP = Some ''server.jar'',
                  socketConnectionOptionsP = None, additionalArgsP = None \<rparr>)))
       = Some (connectPortError NaN)"
proof -
  let ?o = "Some \<lparr> inheritedP = (\<lambda>b::unit. b), executableP = Some ''server.jar'',
                socketConnectionOptionsP = None, additionalArgsP = None \<rparr>"
  have h: "\<not> suppliesSocketConnectionOptions ?o"
    by simp
  have e: "executable (options (initialize () ?o)) = Some ''server.jar''"
    by (simp add: initialize_def configure_def createDefaultOptions_def Let_def)
  note t = default_port_makes_launch_and_connect_fail
      [OF h, of "()" "\<lambda>f. True" "\<lambda>cmd args. None" "OtherChannel 0"]
  have r: "onReadyDeferred (snd (launch (\<lambda>f. True) (\<lambda>cmd args. None) (initialize () ?o)))
      = Rejected (launchPortError NaN)"
    using t unfolding e by simp
  have k: "fst (connect (OtherChannel 0) (initialize () ?o)) = Some (connectPortError NaN)"
    using t by simp
  show ?thesis
    using h r k by blast
qed

theorem default_port_launch_error_counterexample:
  "\<not> suppliesSocketConnectionOptions (None :: unit PartialOptions option)
   \<and> onReadyDeferred (snd (launch (\<lambda>f. True) (\<lambda>cmd args. None) (initialize () None)))
       = Rejected noExecutableError
   \<and> noExecutableError \<noteq> launchPortError NaN"
  by (simp add: launch_def launchTry_def initialize_def configure_def createDefaultOptions_def
      noExecutableError_def launchPortError_def)

lemma processEvents_append:
  "processEvents (xs @ ys) c = processEvents ys (processEvents xs c)"
  by (induction xs arbitrary: c) simp_all

lemma processEvent_plain: "plainOutput ev \<Longrightarrow> processEvent ev c = c"
  by (cases ev) (simp_all add: processLogInfo_def)

lemma processEvents_plain:
  "\<forall>ev \<in> set evs. plainOutput ev \<Longrightarrow> processEvents evs c = c"
  by (induction evs arbitrary: c) (simp_all add: processEvent_plain)

lemma processEvent_settled:
  "onReadyDeferred c \<noteq> Unresolved \<Longrightarrow> processEvent ev c = c"
  by (cases ev; cases "onReadyDeferred c")
    (simp_all add: processLogInfo_def processEnded_def)

lemma processEvents_settled:
  "onReadyDeferred c \<noteq> Unresolved \<Longrightarrow> processEvents evs c = c"
  by (induction evs arbitrary: c) (simp_all add: processEvent_settled)

lemma eventTrace_nonempty: "eventTrace evs c \<noteq> []"
  by (cases evs) simp_all

lemma hd_eventTrace: "hd (eventTrace evs c) = onReadyDeferred c"
  by (cases evs) simp_all

lemma changes_eventTrace_step:
  "changes (eventTrace (ev # evs) c) =
     (if onReadyDeferred c = onReadyDeferred (processEvent ev c) then 0 else 1)
       + changes (eventTrace evs (processEvent ev c))"
  by (simp add: changes_Cons eventTrace_nonempty hd_eventTrace)

lemma changes_eventTrace_settled:
  "onReadyDeferred c \<noteq> Unresolved \<Longrightarrow> changes (eventTrace evs c) = 0"
proof (induction evs arbitrary: c)
  case Nil
  show ?case by simp
next
  case (Cons ev evs)
  have same: "processEvent ev c = c"
    using Cons.prems by (rule processEvent_settled)
  show ?case
    unfolding changes_eventTrace_step same using Cons by simp
qed

lemma changes_eventTrace_plain:
  "\<forall>ev \<in> set pre. plainOutput ev \<Longrightarrow>
   changes (eventTrace (pre @ evs) c) = changes (eventTrace evs c)"
proof (induction pre arbitrary: c)
  case Nil
  show ?case by simp
next
  case (Cons ev pre)
  have same: "processEvent ev c = c"
    using Cons.prems by (simp add: processEvent_plain)
  have "changes (eventTrace ((ev # pre) @ evs) c) = changes (eventTrace (pre @ evs) c)"
    using changes_eventTrace_step [of ev "pre @ evs" c] by (simp add: same)
  with Cons show ?case by simp
qed

text \<open>
  Claim C6. Starting from an unsettled readiness future, let the events of the process
  be output lines \<open>pre\<close> without the start-up message, then the end of the process
  with a reason, then any events \<open>post\<close>. The future is unsettled after \<open>pre\<close>,
  rejected with the reason at the end of the process, and still rejected with that
  reason after \<open>post\<close>; over all events its state changes exactly once.
\<close>

theorem readiness_fails_once_when_process_ends_first:
  assumes "onReadyDeferred c = Unresolved"
    and "\<forall>ev \<in> set pre. plainOutput ev"
  shows "onReadyDeferred (processEvents pre c) = Unresolved
       \<and> onReadyDeferred (processEvents (pre @ [ProcessEnded reason]) c) = Rejected reason
       \<and> onReadyDeferred (processEvents (pre @ ProcessEnded reason # post) c) = Rejected reason
       \<and> changes (eventTrace (pre @ ProcessEnded reason # post) c) = 1"
proof -
  have a: "processEvents pre c = c"
    using assms(2) by (rule processEvents_plain)
  have b: "onReadyDeferred (processEvent (ProcessEnded reason) c) = Rejected reason"
    using assms(1) by (simp add: processEnded_def)
  then have nb: "onReadyDeferred (processEvent (ProcessEnded reason) c) \<noteq> Unresolved"
    by simp
  have c1: "onReadyDeferred (processEvents (pre @ [ProcessEnded reason]) c) = Rejected reason"
    using a b by (simp add: processEvents_append)
  have d: "processEvents (pre @ ProcessEnded reason # post) c
      = processEvents post (processEvent (ProcessEnded reason) c)"
    using a by (simp add: processEvents_append)
  have e: "onReadyDeferred (processEvents (pre @ ProcessEnded reason # post) c) = Rejected reason"
    unfolding d processEvents_settled [OF nb] by (rule b)
  have "changes (eventTrace (pre @ ProcessEnded reason # post) c)
      = changes (eventTrace (ProcessEnded reason # post) c)"
    using assms(2) by (rule changes_eventTrace_plain)
  also have "\<dots> = 1"
    unfolding changes_eventTrace_step changes_eventTrace_settled [OF nb]
    using assms(1) b by simp
  finally have f: "changes (eventTrace (pre @ ProcessEnded reason # post) c) = 1" .
  show ?thesis
    using a assms(1) c1 e f by simp
qed

theorem readiness_fails_once_when_process_ends_first_witness:
  "onReadyDeferred (initialize () None) = Unresolved
   \<and> plainOutput (OutputLine ''Starting server'')
   \<and> onReadyDeferred (processEvents [OutputLine ''Starting server''] (initialize () None))
       = Unresolved
   \<and> onReadyDeferred (processEvents ([OutputLine ''Starting server''] @
        [ProcessEnded (Error ''exit 1'')]) (initialize () None)) = Rejected (Error ''exit 1'')
   \<and> onReadyDeferred (processEvents ([OutputLine ''Starting server''] @
        ProcessEnded (Error ''exit 1'') #
        [OutputLine ''[GLSP-Server]:Startup completed'', ProcessEnded (Error ''again'')])
        (initialize () None)) = Rejected (Error ''exit 1'')
   \<and> changes (eventTrace ([OutputLine ''Starting server''] @
        ProcessEnded (Error ''exit 1'') #
        [OutputLine ''[GLSP-Server]:Startup completed'', ProcessEnded (Error ''again'')])
        (initialize () None)) = 1"
proof -
  have h1: "onReadyDeferred (initialize () None) = Unresolved"
    by (simp add: initialize_def)
  have h2': "plainOutput (OutputLine ''Starting server'')"
    by (simp add: startsWith_def START_UP_COMPLETE_MSG_def)
  then have h2: "\<forall>ev \<in> set [OutputLine ''Starting server'']. plainOutput ev"
    by simp
  show ?thesis
    using readiness_fails_once_when_process_ends_first [OF h1 h2, of "Error ''exit 1''"
        "[OutputLine ''[GLSP-Server]:Startup completed'', ProcessEnded (Error ''again'')]"]
      h1 h2'
    by blast
qed

section \<open>Socket errors and disposal\<close>

lemma connect_socket:
  assumes "\<not> isNaN (port (socketConnectionOptions (options c)))"
  shows "sockets (snd (connectToSocketServer ch c)) =
           sockets c @
             [\<lparr> errorListeners =
                  (if instanceofForwardingChannel ch
                   then [ForwarderListener, FireOnErrorEmitter ch] else [ForwarderListener]),
                connectCalls =
                  (if validPort (port (socketConnectionOptions (options c)))
                   then [socketConnectionOptions (options c)] else []) \<rparr>]"
  using assms
  by (simp add: connectToSocketServer_def newSocket_def forward_def
      newSocketConnectionForwarder_def socketOnError_def updateSocket_def socketConnect_def
      Let_def nth_append)

lemma connect_outcome:
  assumes "\<not> isNaN (port (socketConnectionOptions (options c)))"
  shows "fst (connectToSocketServer ch c) =
           (if validPort (port (socketConnectionOptions (options c)))
            then None else Some socketBadPortError)"
    and "toDispose (snd (connectToSocketServer ch c)) =
           toDispose c @ [SocketConnectionForwarder ch (length (sockets c))] @
           (if validPort (port (socketConnectionOptions (options c)))
            then [SocketDestroy (length (sockets c))] else [])"
    and "spawnCalls (snd (connectToSocketServer ch c)) = spawnCalls c"
  using assms
  by (simp_all add: connectToSocketServer_def newSocket_def forward_def
      newSocketConnectionForwarder_def socketOnError_def updateSocket_def socketConnect_def
      Let_def nth_append)

text \<open>
  Claim C9. When the port is a number, \<^verbatim>\<open>connectToSocketServer\<close> creates one socket
  and registers the listeners of its \<^verbatim>\<open>'error'\<close> event before it calls
  \<^verbatim>\<open>socket.connect\<close>. An \<^verbatim>\<open>'error'\<close> event of that socket is then never thrown: when
  the client channel is a \<^verbatim>\<open>ForwardingChannel\<close> the error is fired on the channel's
  error emitter, and otherwise it is logged by the forwarder and dropped. This holds
  whether \<^verbatim>\<open>socket.connect\<close> accepts the port or throws its \<^verbatim>\<open>RangeError\<close> for a port
  outside 0 to 65535, which is the error \<^verbatim>\<open>connectToSocketServer\<close> then throws with
  nothing connected.
\<close>

theorem socket_error_is_surfaced_or_logged:
  assumes "\<not> isNaN (port (socketConnectionOptions (options c)))"
  shows "length (sockets (snd (connectToSocketServer ch c))) = Suc (length (sockets c))
       \<and> emitError (last (sockets (snd (connectToSocketServer ch c)))) e =
           (if instanceofForwardingChannel ch
            then Inr [Logged e, ChannelErrorEvent ch e]
            else Inr [Logged e])
       \<and> fst (connectToSocketServer ch c) =
           (if validPort (port (socketConnectionOptions (options c)))
            then None else Some socketBadPortError)
       \<and> connectCalls (last (sockets (snd (connectToSocketServer ch c)))) =
           (if validPort (port (socketConnectionOptions (options c)))
            then [socketConnectionOptions (options c)] else [])"
  unfolding connect_socket [OF assms] connect_outcome(1) [OF assms]
  by (simp add: emitError_def)


theorem socket_error_is_surfaced_or_logged_witness:
  "\<not> isNaN (port (socketConnectionOptions
         (options (exampleContribution ''server.js'' (Num 5007) None None))))
   \<and> emitError (last (sockets (snd (connectToSocketServer (ForwardingChannel 0)
         (exampleContribution ''server.js'' (Num 5007) None None)))))
         (Error ''ECONNREFUSED'')
       = Inr [Logged (Error ''ECONNREFUSED''),
              ChannelErrorEvent (ForwardingChannel 0) (Error ''ECONNREFUSED'')]
   \<and> emitError (last (sockets (snd (connectToSocketServer (OtherChannel 1)
         (exampleContribution ''server.js'' (Num 5007) None None)))))
         (Error ''ECONNREFUSED'')
       = Inr [Logged (Error ''ECONNREFUSED'')]
   \<and> fst (connectToSocketServer (OtherChannel 1)
         (exampleContribution ''server.js'' (Num 5007) None None)) = None
   \<and> \<not> isNaN (port (socketConnectionOptions
         (options (exampleContribution ''server.js'' (Num 70000) None None))))
   \<and> fst (connectToSocketServer (ForwardingChannel 0)
         (exampleContribution ''server.js'' (Num 70000) None None)) = Some socketBadPortError"
proof -
  let ?c = "exampleContribution ''server.js'' (Num 5007) None None"
  let ?b = "exampleContribution ''server.js'' (Num 70000) None None"
  have h: "\<not> isNaN (port (socketConnectionOptions (options ?c)))"
    and v: "validPort (port (socketConnectionOptions (options ?c)))"
    and g: "\<not> isNaN (port (socketConnectionOptions (options ?b)))"
    and w: "\<not> validPort (port (socketConnectionOptions (options ?b)))"
    by (simp_all add: example_options)
  show ?thesis
    using socket_error_is_surfaced_or_logged [OF h, of "ForwardingChannel 0" "Error ''ECONNREFUSED''"]
      socket_error_is_surfaced_or_logged [OF h, of "OtherChannel 1" "Error ''ECONNREFUSED''"]
      socket_error_is_surfaced_or_logged [OF g, of "ForwardingChannel 0" "Error ''ECONNREFUSED''"]
      h v g w
    by simp
qed

lemma connect_success:
  assumes "connectToSocketServer ch c = (None, c')"
  shows "toDispose c' =
           toDispose c @ [SocketConnectionForwarder ch (length (sockets c)),
                          SocketDestroy (length (sockets c))]"
    and "spawnCalls c' = spawnCalls c"
proof -
  have n: "\<not> isNaN (port (socketConnectionOptions (options c)))"
    using assms by (auto simp add: connectToSocketServer_def)
  have v: "validPort (port (socketConnectionOptions (options c)))"
    using connect_outcome(1) [OF n, of ch] assms by (simp split: if_splits)
  show "toDispose c' =
           toDispose c @ [SocketConnectionForwarder ch (length (sockets c)),
                          SocketDestroy (length (sockets c))]"
    using connect_outcome(2) [OF n, of ch] assms v by simp
  show "spawnCalls c' = spawnCalls c"
    using connect_outcome(3) [OF n, of ch] assms by simp
qed

lemma dispose_nothing_left:
  assumes "toDispose (contribution s) = []"
    and "spawnCalls (contribution s) = [] \<or> ProcessKill \<in> set (calls s)"
  shows "dispose s = s"
proof -
  have "(contribution s)\<lparr>toDispose := []\<rparr> = contribution s"
    using assms(1) by (cases "contribution s") simp
  then show ?thesis
    using assms by (cases s) (auto simp add: dispose_def Let_def)
qed

lemma sessionEvent_nothing_left:
  assumes "toDispose (contribution s) = []"
    and "spawnCalls (contribution s) = [] \<or> ProcessKill \<in> set (calls s)"
  shows "sessionEvent ev s = s"
  using assms by (cases ev) (simp_all add: dispose_nothing_left)

lemma sessionEvents_nothing_left:
  assumes "toDispose (contribution s) = []"
    and "spawnCalls (contribution s) = [] \<or> ProcessKill \<in> set (calls s)"
  shows "sessionEvents evs s = s"
  using assms by (induction evs) (simp_all add: sessionEvent_nothing_left)

lemma sessionEvent_first:
  assumes "toDispose c = [SocketConnectionForwarder ch sid, SocketDestroy sid]"
    and "spawnCalls c \<noteq> []"
    and "ev = DisposeCall \<or> ev = ChannelClosed ch \<or> ev = SocketClosed sid"
  shows "sessionEvent ev (bindSession c) =
           \<lparr> contribution = c\<lparr>toDispose := []\<rparr>,
             calls = (if ev = SocketClosed sid then [ChannelClose ch] else []) @
                     [ProcessKill, SocketDestroyCall sid, ForwarderDispose ch sid] \<rparr>"
  using assms by (auto simp add: bindSession_def dispose_def Let_def)

text \<open>
  Claim C7. Let a process be spawned and nothing be held in \<^verbatim>\<open>toDispose\<close>, and let
  \<^verbatim>\<open>connectToSocketServer\<close> succeed for a client channel: \<^verbatim>\<open>toDispose\<close> then holds
  the forwarder of the channel and the new socket, and the entry that destroys the
  socket. Bind the session, and let a dispose call, the closing of the channel or the
  closing of the socket come first, followed by any events. The process is killed
  exactly once and the socket is destroyed exactly once; the channel is closed exactly
  once when it was the socket that closed first and never otherwise; \<^verbatim>\<open>toDispose\<close>
  is empty afterwards, a later dispose changes nothing, and disposing a bound session
  twice is disposing it once.
\<close>

theorem disposal_happens_once:
  assumes "toDispose c = []"
    and "spawnCalls c \<noteq> []"
    and "connectToSocketServer ch c = (None, c')"
    and "ev = DisposeCall \<or> ev = ChannelClosed ch \<or> ev = SocketClosed (length (sockets c))"
  shows "toDispose c' = [SocketConnectionForwarder ch (length (sockets c)),
                         SocketDestroy (length (sockets c))]
       \<and> calls (sessionEvents (ev # evs) (bindSession c')) =
           (if ev = SocketClosed (length (sockets c)) then [ChannelClose ch] else []) @
           [ProcessKill, SocketDestroyCall (length (sockets c)),
            ForwarderDispose ch (length (sockets c))]
       \<and> count_list (calls (sessionEvents (ev # evs) (bindSession c'))) ProcessKill = 1
       \<and> count_list (calls (sessionEvents (ev # evs) (bindSession c')))
            (SocketDestroyCall (length (sockets c))) = 1
       \<and> count_list (calls (sessionEvents (ev # evs) (bindSession c'))) (ChannelClose ch) =
            (if ev = SocketClosed (length (sockets c)) then 1 else 0)
       \<and> toDispose (contribution (sessionEvents (ev # evs) (bindSession c'))) = []
       \<and> dispose (sessionEvents (ev # evs) (bindSession c')) =
            sessionEvents (ev # evs) (bindSession c')
       \<and> dispose (dispose (bindSession c')) = dispose (bindSession c')"
proof -
  let ?sid = "length (sockets c)"
  let ?s1 = "\<lparr> contribution = c'\<lparr>toDispose := []\<rparr>,
             calls = (if ev = SocketClosed ?sid then [ChannelClose ch] else []) @
                     [ProcessKill, SocketDestroyCall ?sid, ForwarderDispose ch ?sid] \<rparr>"
  have td: "toDispose c' = [SocketConnectionForwarder ch ?sid, SocketDestroy ?sid]"
    using connect_success(1) [OF assms(3)] assms(1) by simp
  have sp: "spawnCalls c' \<noteq> []"
    using connect_success(2) [OF assms(3)] assms(2) by simp
  have first: "sessionEvent ev (bindSession c') = ?s1"
    using td sp assms(4) by (rule sessionEvent_first)
  have left: "toDispose (contribution ?s1) = []"
    and killed: "spawnCalls (contribution ?s1) = [] \<or> ProcessKill \<in> set (calls ?s1)"
    by simp_all
  have run: "sessionEvents (ev # evs) (bindSession c') = ?s1"
    using sessionEvents_nothing_left [OF left killed, of evs] first by simp
  have again: "dispose ?s1 = ?s1"
    using left killed by (rule dispose_nothing_left)
  have d1: "dispose (bindSession c') =
      \<lparr> contribution = c'\<lparr>toDispose := []\<rparr>,
        calls = [ProcessKill, SocketDestroyCall ?sid, ForwarderDispose ch ?sid] \<rparr>"
    using sessionEvent_first [OF td sp, of DisposeCall] by simp
  have twice: "dispose (dispose (bindSession c')) = dispose (bindSession c')"
    unfolding d1 by (rule dispose_nothing_left) simp_all
  show ?thesis
    unfolding run using td again twice by simp
qed

theorem disposal_happens_once_witness:
  "connectToSocketServer (ForwardingChannel 7)
      (snd (launch (\<lambda>f. True) (\<lambda>cmd args. None)
         (exampleContribution ''server.js'' (Num 5007) None None)))
     = (None, snd (connectToSocketServer (ForwardingChannel 7)
      (snd (launch (\<lambda>f. True) (\<lambda>cmd args. None)
         (exampleContribution ''server.js'' (Num 5007) None None)))))
   \<and> calls (sessionEvents [SocketClosed 0, DisposeCall, ChannelClosed (ForwardingChannel 7), DisposeCall]
        (bindSession (snd (connectToSocketServer (ForwardingChannel 7)
          (snd (launch (\<lambda>f. True) (\<lambda>cmd args. None)
             (exampleContribution ''server.js'' (Num 5007) None None)))))))
     = [ChannelClose (ForwardingChannel 7), ProcessKill, SocketDestroyCall 0,
        ForwarderDispose (ForwardingChannel 7) 0]
   \<and> calls (sessionEvents [DisposeCall, DisposeCall]
        (bindSession (snd (connectToSocketServer (ForwardingChannel 7)
          (snd (launch (\<lambda>f. True) (\<lambda>cmd args. None)
             (exampleContribution ''server.js'' (Num 5007) None None)))))))
     = [ProcessKill, SocketDestroyCall 0, ForwarderDispose (ForwardingChannel 7) 0]"
proof -
  let ?a = "exampleContribution ''server.js'' (Num 5007) None None"
  let ?c = "snd (launch (\<lambda>f. True) (\<lambda>cmd args. None) ?a)"
  let ?ch = "ForwardingChannel 7"
  have js: "endsWith ''server.js'' ''.js''" and nj: "\<not> endsWith ''server.js'' ''.jar''"
    by (simp_all add: endsWith_def)
  have t: "launchTry (\<lambda>f. True) (\<lambda>cmd args. None) ?a = launchNodeProcess (\<lambda>cmd args. None) ?a"
    using js nj by (simp add: launchTry_def example_options Let_def)
  have ok: "fst (launchNodeProcess (\<lambda>cmd args. None) ?a) = None"
    by (simp add: launchNodeProcess_def spawnProcessAsync_def Let_def split: option.split)
  have c: "?c = snd (launchNodeProcess (\<lambda>cmd args. None) ?a)"
    unfolding launch_state t ok by simp
  have h1: "toDispose ?c = []" and h2: "spawnCalls ?c \<noteq> []" and s0: "sockets ?c = []"
    and o: "options ?c = options ?a"
    unfolding c launchNodeProcess_state
    by (simp_all add: exampleContribution_def initialize_def)
  have n: "\<not> isNaN (port (socketConnectionOptions (options ?c)))"
    and v: "validPort (port (socketConnectionOptions (options ?c)))"
    unfolding o by (simp_all add: example_options)
  have f: "fst (connectToSocketServer ?ch ?c) = None"
    using connect_outcome(1) [OF n, of ?ch] v by simp
  then have h3: "connectToSocketServer ?ch ?c = (None, snd (connectToSocketServer ?ch ?c))"
    by (metis prod.collapse)
  have e1: "SocketClosed 0 = DisposeCall \<or> SocketClosed 0 = ChannelClosed ?ch
      \<or> SocketClosed 0 = SocketClosed (length (sockets ?c))"
    and e2: "DisposeCall = DisposeCall \<or> DisposeCall = ChannelClosed ?ch
      \<or> DisposeCall = SocketClosed (length (sockets ?c))"
    by (simp_all add: s0)
  note t1 = disposal_happens_once [OF h1 h2 h3 e1, of "[DisposeCall, ChannelClosed ?ch, DisposeCall]"]
  note t2 = disposal_happens_once [OF h1 h2 h3 e2, of "[DisposeCall]"]
  have a: "calls (sessionEvents [SocketClosed 0, DisposeCall, ChannelClosed ?ch, DisposeCall]
        (bindSession (snd (connectToSocketServer ?ch ?c))))
     = [ChannelClose ?ch, ProcessKill, SocketDestroyCall 0, ForwarderDispose ?ch 0]"
    by (subst t1 [THEN conjunct2, THEN conjunct1]) (simp add: s0)
  have b: "calls (sessionEvents [DisposeCall, DisposeCall]
        (bindSession (snd (connectToSocketServer ?ch ?c))))
     = [ProcessKill, SocketDestroyCall 0, ForwarderDispose ?ch 0]"
    by (subst t2 [THEN conjunct2, THEN conjunct1]) (simp add: s0)
  show ?thesis
    using h3 a b by blast
qed

end
